theory Spec2Isabelle
  imports Complex_Main
begin

section \<open>The CRM GraphQL schema (crm/schema.py)\<close>

text \<open>
  A shallow embedding of the resolvers and mutations of \<^verbatim>\<open>crm/schema.py\<close>.
  The relational store is a record of four tables; every mutation takes the store and
  returns the store after the call together with the envelope it answers.
  Python exceptions are values of the type \<open>exn\<close>; a computation that may raise
  returns \<open>exn + 'a\<close>, with \<open>Inl\<close> for the exception.

  A string is a list of code points below 256, the characters of Isabelle; Python strings
  with other code points are not represented.
\<close>

subsection \<open>Python strings: \<^verbatim>\<open>repr\<close> and \<^verbatim>\<open>int\<close>\<close>

text \<open>
  \<^verbatim>\<open>repr\<close> of a string: single quotes, or double quotes when the string has a single
  quote and no double quote; the backslash, the chosen quote, newline, carriage return and
  tab are escaped, and the code points that are not printable (below 32, from 127 to 160,
  and 173) are written \<^verbatim>\<open>\xNN\<close>.
\<close>

definition printable :: "char \<Rightarrow> bool" where
  "printable c =
     (let n = (of_char c :: nat) in (32 \<le> n \<and> n < 127) \<or> (160 < n \<and> n \<noteq> 173))"

definition hex2 :: "char \<Rightarrow> string" where
  "hex2 c =
     [''0123456789abcdef'' ! ((of_char c :: nat) div 16),
      ''0123456789abcdef'' ! ((of_char c :: nat) mod 16)]"

definition repr_char :: "char \<Rightarrow> char \<Rightarrow> string" where
  "repr_char q c =
     (if c = CHR 0x5C then [CHR 0x5C, CHR 0x5C]
      else if c = q then [CHR 0x5C, q]
      else if c = CHR 0x0A then [CHR 0x5C, CHR ''n'']
      else if c = CHR 0x0D then [CHR 0x5C, CHR ''r'']
      else if c = CHR 0x09 then [CHR 0x5C, CHR ''t'']
      else if \<not> printable c then [CHR 0x5C, CHR ''x''] @ hex2 c
      else [c])"

definition py_repr :: "string \<Rightarrow> string" where
  "py_repr s =
     (let q = (if CHR 0x27 \<in> set s \<and> CHR 0x22 \<notin> set s then CHR 0x22 else CHR 0x27)
      in [q] @ concat (map (repr_char q) s) @ [q])"

text \<open>
  \<^verbatim>\<open>int(s)\<close> on a string: white space around the number is dropped (tab to carriage
  return, space, and the code points 133 and 160), then come an optional sign and decimal
  digits, between which single underscores may stand. \<open>None\<close> stands for ValueError.
  Python's limit on the number of digits is left out.
\<close>

definition is_space :: "char \<Rightarrow> bool" where
  "is_space c = ((of_char c :: nat) \<in> {9, 10, 11, 12, 13, 32, 133, 160})"

definition is_digit :: "char \<Rightarrow> bool" where
  "is_digit c = (c \<in> set ''0123456789'')"

definition digit_value :: "char \<Rightarrow> nat" where
  "digit_value c = (of_char c :: nat) - 48"

fun digits_value :: "nat \<Rightarrow> string \<Rightarrow> nat option" where
  "digits_value acc [] = Some acc"
| "digits_value acc (c # cs) =
     (if is_digit c then digits_value (10 * acc + digit_value c) cs
      else if c = CHR ''_'' then
        (case cs of
           [] \<Rightarrow> None
         | c' # cs' \<Rightarrow> if is_digit c' then digits_value acc cs else None)
      else None)"

definition parse_digits :: "string \<Rightarrow> nat option" where
  "parse_digits s =
     (case s of [] \<Rightarrow> None | c # cs \<Rightarrow> if is_digit c then digits_value 0 s else None)"

definition strip :: "string \<Rightarrow> string" where
  "strip s = rev (dropWhile is_space (rev (dropWhile is_space s)))"

definition py_int :: "string \<Rightarrow> int option" where
  "py_int s =
     (case strip s of
        [] \<Rightarrow> None
      | c # cs \<Rightarrow>
          if c = CHR ''-'' then map_option (\<lambda>n. - int n) (parse_digits cs)
          else if c = CHR ''+'' then map_option int (parse_digits cs)
          else map_option int (parse_digits (c # cs)))"

subsection \<open>Exceptions and the text they print\<close>

text \<open>
  An exception carries the text that Python's \<^verbatim>\<open>str(e)\<close> returns for it.
  \<^verbatim>\<open>django.core.exceptions.ValidationError\<close> prints as the \<^verbatim>\<open>repr\<close> of the
  list of its messages, so \<^verbatim>\<open>str(ValidationError("m"))\<close> is \<^verbatim>\<open>['m']\<close>;
  \<open>raise_ValidationError\<close> is the constructor call with one message.
\<close>

datatype exn =
    ValidationError string
  | DoesNotExist string
  | ValueError string
  | InvalidOperation string
  | TransactionManagementError string
  | OtherException string

fun str_exn :: "exn \<Rightarrow> string" where
  "str_exn (ValidationError s) = s"
| "str_exn (DoesNotExist s) = s"
| "str_exn (ValueError s) = s"
| "str_exn (InvalidOperation s) = s"
| "str_exn (TransactionManagementError s) = s"
| "str_exn (OtherException s) = s"

fun is_ValidationError :: "exn \<Rightarrow> bool" where
  "is_ValidationError (ValidationError s) = True"
| "is_ValidationError e = False"

fun is_DoesNotExist :: "exn \<Rightarrow> bool" where
  "is_DoesNotExist (DoesNotExist s) = True"
| "is_DoesNotExist e = False"

definition raise_ValidationError :: "string \<Rightarrow> exn" where
  "raise_ValidationError m = ValidationError (''['' @ py_repr m @ '']'')"

text \<open>
  What an integer field raises on a value that is no number, what an ordering comparison
  with a decimal NaN raises, and what a query raises in a transaction that is marked for
  rollback.
\<close>

definition field_id_error :: "string \<Rightarrow> exn" where
  "field_id_error v = ValueError (''Field 'id' expected a number but got '' @ py_repr v @ ''.'')"

definition invalid_operation :: exn where
  "invalid_operation = InvalidOperation ''[<class 'decimal.InvalidOperation'>]''"

definition broken_transaction :: exn where
  "broken_transaction =
     TransactionManagementError
       (''An error occurred in the current transaction. You can't execute queries ''
        @ ''until the end of the 'atomic' block.'')"

subsection \<open>Decimals\<close>

text \<open>
  A \<^verbatim>\<open>graphene.Decimal\<close> argument is any Python \<^verbatim>\<open>Decimal\<close>: a finite number, an
  infinity or a NaN. \<open>dec_le_zero\<close> is the comparison \<^verbatim>\<open>price <= 0\<close>, which raises on a
  NaN. The prices and amounts of the store are finite and are modelled as rationals.
\<close>

datatype decimal = Finite rat | Infinity | NegInfinity | NaN

definition dec_le_zero :: "decimal \<Rightarrow> exn + bool" where
  "dec_le_zero x =
     (case x of
        Finite r \<Rightarrow> Inr (r \<le> 0)
      | Infinity \<Rightarrow> Inr False
      | NegInfinity \<Rightarrow> Inr True
      | NaN \<Rightarrow> Inl invalid_operation)"

subsection \<open>The entities and the store\<close>

text \<open>
  The four entities of \<^verbatim>\<open>crm/models.py\<close>. The primary key is \<open>None\<close> on an
  instance that has not been saved. The creation time stamp of an order plays no part in
  schema.py and is left out.
\<close>

record customer =
  c_id :: "int option"
  c_name :: string
  c_email :: string
  c_phone :: "string option"

record product =
  p_id :: "int option"
  p_name :: string
  p_price :: rat
  p_stock :: int

record order =
  o_id :: "int option"
  o_customer :: "int option"
  o_total_amount :: rat

record order_item =
  i_id :: "int option"
  i_order :: "int option"
  i_product :: "int option"
  i_quantity :: int
  i_unit_price :: rat

record db =
  customers :: "customer list"
  products :: "product list"
  orders :: "order list"
  order_items :: "order_item list"

definition empty_db :: db where
  "empty_db = \<lparr>customers = [], products = [], orders = [], order_items = []\<rparr>"

text \<open>The key the store gives to a new row: one more than the largest key of the table.\<close>

fun keys_of :: "int option list \<Rightarrow> int list" where
  "keys_of [] = []"
| "keys_of (None # ks) = keys_of ks"
| "keys_of (Some k # ks) = k # keys_of ks"

definition next_id :: "int option list \<Rightarrow> int" where
  "next_id ks = fold max (keys_of ks) 0 + 1"

text \<open>
  \<^verbatim>\<open>Model.objects.get(id=...)\<close> with the id as the GraphQL \<^verbatim>\<open>ID\<close> string it is: the
  integer field turns the string into a number with \<^verbatim>\<open>int\<close> and raises ValueError when it
  is none; then the row with that key is returned, or DoesNotExist raised. Keys are
  unbounded integers; what the database does with a number beyond the range of its key
  column is left out.
\<close>

definition objects_get_customer :: "db \<Rightarrow> string \<Rightarrow> exn + customer" where
  "objects_get_customer d v =
     (case py_int v of
        None \<Rightarrow> Inl (field_id_error v)
      | Some k \<Rightarrow>
          (case find (\<lambda>c. c_id c = Some k) (customers d) of
             None \<Rightarrow> Inl (DoesNotExist ''Customer matching query does not exist.'')
           | Some c \<Rightarrow> Inr c))"

definition objects_get_product :: "db \<Rightarrow> string \<Rightarrow> exn + product" where
  "objects_get_product d v =
     (case py_int v of
        None \<Rightarrow> Inl (field_id_error v)
      | Some k \<Rightarrow>
          (case find (\<lambda>p. p_id p = Some k) (products d) of
             None \<Rightarrow> Inl (DoesNotExist ''Product matching query does not exist.'')
           | Some p \<Rightarrow> Inr p))"

definition objects_get_order :: "db \<Rightarrow> string \<Rightarrow> exn + order" where
  "objects_get_order d v =
     (case py_int v of
        None \<Rightarrow> Inl (field_id_error v)
      | Some k \<Rightarrow>
          (case find (\<lambda>x. o_id x = Some k) (orders d) of
             None \<Rightarrow> Inl (DoesNotExist ''Order matching query does not exist.'')
           | Some x \<Rightarrow> Inr x))"

text \<open>\<^verbatim>\<open>Customer.objects.filter(email=...).exists()\<close>\<close>

definition email_exists :: "db \<Rightarrow> string \<Rightarrow> bool" where
  "email_exists d e = list_ex (\<lambda>c. c_email c = e) (customers d)"

subsection \<open>The model layer\<close>

text \<open>
  \<^verbatim>\<open>full_clean()\<close>, \<^verbatim>\<open>save()\<close> and \<^verbatim>\<open>objects.create()\<close> belong to the model classes
  of \<^verbatim>\<open>crm/models.py\<close>, whose field declarations are not among the sources. What they
  raise is a parameter of every mutation: \<open>orm d call\<close> is the exception that the call
  raises in store \<open>d\<close>, or \<open>None\<close> when it goes through. A call that raises writes nothing.
  For \<^verbatim>\<open>save()\<close> and \<^verbatim>\<open>objects.create()\<close> it is the write to the table that raises.
  The product instance holds the price as it came in; its column holds finite decimals
  only, and saving an infinity raises in the conversion for the column.
\<close>

record product_instance =
  pi_name :: string
  pi_price :: decimal
  pi_stock :: int

datatype orm_call =
    Full_clean_customer customer
  | Save_customer customer
  | Full_clean_product product_instance
  | Save_product product_instance
  | Save_order order
  | Create_order_item order_item

type_synonym orm = "db \<Rightarrow> orm_call \<Rightarrow> exn option"

definition accepting :: orm where
  "accepting d call = None"

definition full_clean_customer :: "orm \<Rightarrow> db \<Rightarrow> customer \<Rightarrow> exn + unit" where
  "full_clean_customer m d c =
     (case m d (Full_clean_customer c) of Some e \<Rightarrow> Inl e | None \<Rightarrow> Inr ())"

definition save_customer :: "orm \<Rightarrow> db \<Rightarrow> customer \<Rightarrow> exn + (db \<times> customer)" where
  "save_customer m d c =
     (case m d (Save_customer c) of
        Some e \<Rightarrow> Inl e
      | None \<Rightarrow>
          let c' = c\<lparr>c_id := Some (next_id (map c_id (customers d)))\<rparr>
          in Inr (d\<lparr>customers := customers d @ [c']\<rparr>, c'))"

definition full_clean_product :: "orm \<Rightarrow> db \<Rightarrow> product_instance \<Rightarrow> exn + unit" where
  "full_clean_product m d p =
     (case m d (Full_clean_product p) of Some e \<Rightarrow> Inl e | None \<Rightarrow> Inr ())"

definition save_product :: "orm \<Rightarrow> db \<Rightarrow> product_instance \<Rightarrow> exn + (db \<times> product)" where
  "save_product m d p =
     (case m d (Save_product p) of
        Some e \<Rightarrow> Inl e
      | None \<Rightarrow>
          (case pi_price p of
             Finite r \<Rightarrow>
               let p' = \<lparr>p_id = Some (next_id (map p_id (products d))), p_name = pi_name p,
                         p_price = r, p_stock = pi_stock p\<rparr>
               in Inr (d\<lparr>products := products d @ [p']\<rparr>, p')
           | _ \<Rightarrow> Inl invalid_operation))"

definition save_order :: "orm \<Rightarrow> db \<Rightarrow> order \<Rightarrow> exn + (db \<times> order)" where
  "save_order m d x =
     (case m d (Save_order x) of
        Some e \<Rightarrow> Inl e
      | None \<Rightarrow>
          let x' = x\<lparr>o_id := Some (next_id (map o_id (orders d)))\<rparr>
          in Inr (d\<lparr>orders := orders d @ [x']\<rparr>, x'))"

definition create_order_item :: "orm \<Rightarrow> db \<Rightarrow> order_item \<Rightarrow> exn + (db \<times> order_item)" where
  "create_order_item m d it =
     (case m d (Create_order_item it) of
        Some e \<Rightarrow> Inl e
      | None \<Rightarrow>
          let it' = it\<lparr>i_id := Some (next_id (map i_id (order_items d)))\<rparr>
          in Inr (d\<lparr>order_items := order_items d @ [it']\<rparr>, it'))"

subsection \<open>Input types\<close>

text \<open>
  A GraphQL \<^verbatim>\<open>ID\<close> reaches the resolver as a string. \<^verbatim>\<open>order_date\<close> is accepted and
  never read.
\<close>

record customer_input =
  in_name :: string
  in_email :: string
  in_phone :: "string option"

record product_input =
  pin_name :: string
  pin_price :: decimal
  pin_stock :: "int option"

record order_input =
  customer_id :: string
  product_ids :: "string list"
  order_date :: "string option"

subsection \<open>Queries\<close>

definition resolve_hello :: string where
  "resolve_hello = ''Hello, GraphQL!''"

definition resolve_customer :: "db \<Rightarrow> string \<Rightarrow> exn + customer" where
  "resolve_customer d v = objects_get_customer d v"

definition resolve_product :: "db \<Rightarrow> string \<Rightarrow> exn + product" where
  "resolve_product d v = objects_get_product d v"

definition resolve_order :: "db \<Rightarrow> string \<Rightarrow> exn + order" where
  "resolve_order d v = objects_get_order d v"

text \<open>
  What the GraphQL executor answers for a field: when the resolver raises, the field is
  null and the text of the exception is an entry of the \<^verbatim>\<open>errors\<close> list of the response;
  otherwise the field holds what the resolver returned.
\<close>

record 'a field_response =
  data :: "'a option"
  errors :: "string list"

definition execute_field :: "exn + 'a \<Rightarrow> 'a field_response" where
  "execute_field r =
     (case r of
        Inl e \<Rightarrow> \<lparr>data = None, errors = [str_exn e]\<rparr>
      | Inr v \<Rightarrow> \<lparr>data = Some v, errors = []\<rparr>)"

subsection \<open>The phone pattern\<close>

text \<open>
  The fragment of Python's regular expressions that the phone pattern uses. \<open>rx_run r s\<close>
  lists what is left of \<open>s\<close> after each way of matching \<open>r\<close> at its start, as a
  backtracking matcher explores them; \<^verbatim>\<open>re.match\<close> succeeds when there is one.
  \<open>Dollar\<close> is \<^verbatim>\<open>$\<close>: the end of the string, or the place before a newline that ends
  the string. \<^verbatim>\<open>^\<close> holds where \<^verbatim>\<open>re.match\<close> starts and is left out.
  Among the code points below 256 the decimal digits that \<^verbatim>\<open>\d\<close> matches are 0 to 9.
\<close>

datatype rx = Cls "char list" | Seq rx rx | Opt rx | Dollar

fun rx_run :: "rx \<Rightarrow> string \<Rightarrow> string list" where
  "rx_run (Cls cs) s = (case s of [] \<Rightarrow> [] | c # t \<Rightarrow> if c \<in> set cs then [t] else [])"
| "rx_run (Seq a b) s = concat (map (rx_run b) (rx_run a s))"
| "rx_run (Opt a) s = rx_run a s @ [s]"
| "rx_run Dollar s = (if s = [] \<or> s = [CHR 0x0A] then [s] else [])"

definition re_match :: "rx \<Rightarrow> string \<Rightarrow> bool" where
  "re_match r s = (rx_run r s \<noteq> [])"

definition digit :: rx where
  "digit = Cls ''0123456789''"

definition sep :: rx where
  "sep = Opt (Cls ''- '')"

definition seqs :: "rx list \<Rightarrow> rx" where
  "seqs rs = foldr Seq (butlast rs) (last rs)"

text \<open>\<^verbatim>\<open>^(\+\d{1,3}[- ]?)?\d{3}[- ]?\d{3}[- ]?\d{4}$\<close>\<close>

definition pattern :: rx where
  "pattern =
     seqs [Opt (seqs [Cls ''+'', digit, Opt digit, Opt digit, sep]),
           digit, digit, digit, sep,
           digit, digit, digit, sep,
           digit, digit, digit, digit, Dollar]"

subsection \<open>createCustomer\<close>

definition validate_phone :: "string option \<Rightarrow> exn + bool" where
  "validate_phone phone =
     (case phone of
        None \<Rightarrow> Inr True
      | Some ph \<Rightarrow>
          if ph = [] then Inr True
          else if \<not> re_match pattern ph
          then Inl (raise_ValidationError
                 ''Invalid phone number format. Use +1234567890 or 123-456-7890'')
          else Inr True)"

record customer_envelope =
  ce_customer :: "customer option"
  ce_message :: string
  ce_success :: bool

text \<open>
  Lines 102 to 109, which lines 151 to 158 repeat: the phone check, the new instance and
  \<^verbatim>\<open>full_clean()\<close>. The result is what they raised, or the instance to save.
\<close>

definition validate_and_clean :: "orm \<Rightarrow> db \<Rightarrow> customer_input \<Rightarrow> exn + customer" where
  "validate_and_clean m d inp =
     (case validate_phone (in_phone inp) of
        Inl e \<Rightarrow> Inl e
      | Inr _ \<Rightarrow>
          (let c = \<lparr>c_id = None, c_name = in_name inp, c_email = in_email inp,
                    c_phone = in_phone inp\<rparr>
           in (case full_clean_customer m d c of
                 Inl e \<Rightarrow> Inl e
               | Inr _ \<Rightarrow> Inr c)))"

text \<open>The body of the \<^verbatim>\<open>try\<close> block of \<^verbatim>\<open>CreateCustomer.mutate\<close>.\<close>

definition create_customer_try :: "orm \<Rightarrow> db \<Rightarrow> customer_input \<Rightarrow> db \<times> (exn + customer)" where
  "create_customer_try m d inp =
     (if email_exists d (in_email inp)
      then (d, Inl (raise_ValidationError ''Email already exists''))
      else
        (case validate_and_clean m d inp of
           Inl e \<Rightarrow> (d, Inl e)
         | Inr c \<Rightarrow>
             (case save_customer m d c of
                Inl e \<Rightarrow> (d, Inl e)
              | Inr (d', c') \<Rightarrow> (d', Inr c'))))"

definition create_customer :: "orm \<Rightarrow> db \<Rightarrow> customer_input \<Rightarrow> db \<times> customer_envelope" where
  "create_customer m d inp =
     (case create_customer_try m d inp of
        (d', Inr c) \<Rightarrow>
          (d', \<lparr>ce_customer = Some c, ce_message = ''Customer created successfully'',
                ce_success = True\<rparr>)
      | (d', Inl e) \<Rightarrow>
          if is_ValidationError e
          then (d', \<lparr>ce_customer = None, ce_message = str_exn e, ce_success = False\<rparr>)
          else (d', \<lparr>ce_customer = None,
                     ce_message = ''Error creating customer: '' @ str_exn e,
                     ce_success = False\<rparr>))"

subsection \<open>Transactions\<close>

text \<open>
  \<^verbatim>\<open>with transaction.atomic():\<close> around a block that starts in store \<open>d0\<close>. When an
  exception leaves the block, or when the transaction was marked for rollback inside it,
  the writes of the block are undone; an exception that leaves the block goes on.
  A \<^verbatim>\<open>save()\<close> that raises inside an atomic block marks the transaction for rollback,
  and from then on every query of the block raises.
\<close>

definition atomic :: "db \<Rightarrow> bool \<Rightarrow> db \<times> (exn + 'a) \<Rightarrow> db \<times> (exn + 'a)" where
  "atomic d0 needs_rollback r =
     (case r of
        (d', Inl e) \<Rightarrow> (d0, Inl e)
      | (d', Inr v) \<Rightarrow> if needs_rollback then (d0, Inr v) else (d', Inr v))"

subsection \<open>bulkCreateCustomers\<close>

record bulk_envelope =
  be_customers :: "customer list"
  be_errors :: "string list"
  be_success :: bool

text \<open>The two handlers of the loop body: the string that each appends to \<open>errors\<close>.\<close>

definition row_error :: "customer_input \<Rightarrow> exn \<Rightarrow> string" where
  "row_error inp e =
     (if is_ValidationError e
      then ''Validation error for '' @ in_email inp @ '': '' @ str_exn e
      else ''Error creating customer '' @ in_email inp @ '': '' @ str_exn e)"

text \<open>
  One turn of the loop, in store \<open>d\<close> and with \<open>needs_rollback\<close> telling whether the
  transaction is already marked: the store and the mark after the turn, and either the
  string appended to \<open>errors\<close> or the customer appended to \<open>customers\<close>.
\<close>

definition bulk_row ::
  "orm \<Rightarrow> db \<Rightarrow> bool \<Rightarrow> customer_input \<Rightarrow> db \<times> bool \<times> (string + customer)" where
  "bulk_row m d needs_rollback inp =
     (if needs_rollback then (d, True, Inl (row_error inp broken_transaction))
      else if email_exists d (in_email inp)
      then (d, False, Inl (''Email '' @ in_email inp @ '' already exists''))
      else
        (case validate_and_clean m d inp of
           Inl e \<Rightarrow> (d, False, Inl (row_error inp e))
         | Inr c \<Rightarrow>
             (case save_customer m d c of
                Inl e \<Rightarrow> (d, True, Inl (row_error inp e))
              | Inr (d', c') \<Rightarrow> (d', False, Inr c'))))"

fun bulk_loop ::
  "orm \<Rightarrow> customer_input list \<Rightarrow> db \<Rightarrow> bool \<Rightarrow> customer list \<Rightarrow> string list
   \<Rightarrow> db \<times> bool \<times> customer list \<times> string list" where
  "bulk_loop m [] d nr cs es = (d, nr, cs, es)"
| "bulk_loop m (inp # inps) d nr cs es =
     (case bulk_row m d nr inp of
        (d', nr', Inl err) \<Rightarrow> bulk_loop m inps d' nr' cs (es @ [err])
      | (d', nr', Inr c) \<Rightarrow> bulk_loop m inps d' nr' (cs @ [c]) es)"

text \<open>No exception leaves the loop; the block commits unless the transaction is marked.\<close>

definition bulk_create_customers ::
  "orm \<Rightarrow> db \<Rightarrow> customer_input list \<Rightarrow> db \<times> bulk_envelope" where
  "bulk_create_customers m d inputs =
     (case bulk_loop m inputs d False [] [] of
        (d', nr, cs, es) \<Rightarrow>
          (case atomic d nr (d', Inr (cs, es)) of
             (d'', Inr (cs', es')) \<Rightarrow>
               (d'', \<lparr>be_customers = cs', be_errors = es', be_success = (length cs' > 0)\<rparr>)
           | (d'', Inl e) \<Rightarrow>
               (d'', \<lparr>be_customers = [], be_errors = [], be_success = False\<rparr>)))"

subsection \<open>createProduct\<close>

record product_envelope =
  pe_product :: "product option"
  pe_message :: string
  pe_success :: bool

definition create_product_try :: "orm \<Rightarrow> db \<Rightarrow> product_input \<Rightarrow> db \<times> (exn + product)" where
  "create_product_try m d inp =
     (case dec_le_zero (pin_price inp) of
        Inl e \<Rightarrow> (d, Inl e)
      | Inr not_positive \<Rightarrow>
          if not_positive
          then (d, Inl (raise_ValidationError ''Price must be positive''))
          else
            (let stock = (case pin_stock inp of Some s \<Rightarrow> s | None \<Rightarrow> 0)
             in if stock < 0
                then (d, Inl (raise_ValidationError ''Stock cannot be negative''))
                else
                  (let p = \<lparr>pi_name = pin_name inp, pi_price = pin_price inp,
                            pi_stock = stock\<rparr>
                   in (case full_clean_product m d p of
                         Inl e \<Rightarrow> (d, Inl e)
                       | Inr _ \<Rightarrow>
                           (case save_product m d p of
                              Inl e \<Rightarrow> (d, Inl e)
                            | Inr (d', p') \<Rightarrow> (d', Inr p'))))))"

definition create_product :: "orm \<Rightarrow> db \<Rightarrow> product_input \<Rightarrow> db \<times> product_envelope" where
  "create_product m d inp =
     (case create_product_try m d inp of
        (d', Inr p) \<Rightarrow>
          (d', \<lparr>pe_product = Some p, pe_message = ''Product created successfully'',
                pe_success = True\<rparr>)
      | (d', Inl e) \<Rightarrow>
          if is_ValidationError e
          then (d', \<lparr>pe_product = None, pe_message = str_exn e, pe_success = False\<rparr>)
          else (d', \<lparr>pe_product = None,
                     pe_message = ''Error creating product: '' @ str_exn e,
                     pe_success = False\<rparr>))"

subsection \<open>createOrder\<close>

record order_envelope =
  oe_order :: "order option"
  oe_message :: string
  oe_success :: bool

text \<open>
  Lines 229 to 232: the lookup of the customer, with its handler for DoesNotExist; any
  other exception of the lookup goes on to the handlers of the mutation.
\<close>

definition lookup_customer :: "db \<Rightarrow> string \<Rightarrow> exn + customer" where
  "lookup_customer d v =
     (case objects_get_customer d v of
        Inl e \<Rightarrow>
          if is_DoesNotExist e then Inl (raise_ValidationError ''Customer does not exist'')
          else Inl e
      | Inr c \<Rightarrow> Inr c)"

text \<open>
  The loop over \<^verbatim>\<open>input.product_ids\<close>, with its two accumulators \<open>products\<close> and
  \<open>total_amount\<close>; the message of line 244 prints the id as it was sent.
\<close>

definition product_missing :: "string \<Rightarrow> exn" where
  "product_missing v =
     raise_ValidationError (''Product with ID '' @ v @ '' does not exist'')"

fun resolve_products ::
  "db \<Rightarrow> string list \<Rightarrow> product list \<Rightarrow> rat \<Rightarrow> exn + (product list \<times> rat)" where
  "resolve_products d [] ps total_amount = Inr (ps, total_amount)"
| "resolve_products d (pid # pids) ps total_amount =
     (case objects_get_product d pid of
        Inl e \<Rightarrow> if is_DoesNotExist e then Inl (product_missing pid) else Inl e
      | Inr p \<Rightarrow> resolve_products d pids (ps @ [p]) (total_amount + p_price p))"

text \<open>The loop that creates the order items; the store it returns holds the items created so far.\<close>

fun create_items :: "orm \<Rightarrow> db \<Rightarrow> order \<Rightarrow> product list \<Rightarrow> db \<times> (exn + unit)" where
  "create_items m d x [] = (d, Inr ())"
| "create_items m d x (p # ps) =
     (case create_order_item m d
             \<lparr>i_id = None, i_order = o_id x, i_product = p_id p, i_quantity = 1,
              i_unit_price = p_price p\<rparr> of
        Inl e \<Rightarrow> (d, Inl e)
      | Inr (d', it) \<Rightarrow> create_items m d' x ps)"

text \<open>
  The atomic block: the order row, then one item for each resolved product. No exception
  is caught inside the block, so it is left by the first exception.
\<close>

definition create_order_atomic ::
  "orm \<Rightarrow> db \<Rightarrow> customer \<Rightarrow> product list \<Rightarrow> rat \<Rightarrow> db \<times> (exn + order)" where
  "create_order_atomic m d customer ps total_amount =
     atomic d False
       (case save_order m d
               \<lparr>o_id = None, o_customer = c_id customer, o_total_amount = total_amount\<rparr> of
          Inl e \<Rightarrow> (d, Inl e)
        | Inr (d1, x) \<Rightarrow>
            (case create_items m d1 x ps of
               (d2, Inl e) \<Rightarrow> (d2, Inl e)
             | (d2, Inr u) \<Rightarrow> (d2, Inr x)))"

text \<open>The body of the \<^verbatim>\<open>try\<close> block of \<^verbatim>\<open>CreateOrder.mutate\<close>.\<close>

definition create_order_try :: "orm \<Rightarrow> db \<Rightarrow> order_input \<Rightarrow> db \<times> (exn + order)" where
  "create_order_try m d inp =
     (case lookup_customer d (customer_id inp) of
        Inl e \<Rightarrow> (d, Inl e)
      | Inr customer \<Rightarrow>
          (case resolve_products d (product_ids inp) [] 0 of
             Inl e \<Rightarrow> (d, Inl e)
           | Inr (ps, total_amount) \<Rightarrow>
               if ps = []
               then (d, Inl (raise_ValidationError ''At least one product is required''))
               else create_order_atomic m d customer ps total_amount))"

definition create_order :: "orm \<Rightarrow> db \<Rightarrow> order_input \<Rightarrow> db \<times> order_envelope" where
  "create_order m d inp =
     (case create_order_try m d inp of
        (d', Inr x) \<Rightarrow>
          (d', \<lparr>oe_order = Some x, oe_message = ''Order created successfully'',
                oe_success = True\<rparr>)
      | (d', Inl e) \<Rightarrow>
          if is_ValidationError e
          then (d', \<lparr>oe_order = None, oe_message = str_exn e, oe_success = False\<rparr>)
          else (d', \<lparr>oe_order = None,
                     oe_message = ''Error creating order: '' @ str_exn e,
                     oe_success = False\<rparr>))"

subsection \<open>The vocabulary of the specification\<close>

text \<open>
  The specification speaks of the outcome of each input row of a bulk call, of the rows
  that were created and of those that failed. \<open>bulk_outcomes\<close> lists, in input order,
  what each turn of the loop produced, every turn starting in the store and with the mark
  that the turn before left; \<open>created\<close> and \<open>failed\<close> pick the customers and the error
  strings out of such a list. \<open>bulk_marked\<close> tells whether the transaction of the call
  ends marked for rollback, which is when a \<^verbatim>\<open>save()\<close> of the call raised.
\<close>

fun bulk_outcomes ::
  "orm \<Rightarrow> db \<Rightarrow> bool \<Rightarrow> customer_input list \<Rightarrow> (string + customer) list" where
  "bulk_outcomes m d nr [] = []"
| "bulk_outcomes m d nr (inp # inps) =
     (case bulk_row m d nr inp of (d', nr', r) \<Rightarrow> r # bulk_outcomes m d' nr' inps)"

fun created :: "(string + customer) list \<Rightarrow> customer list" where
  "created [] = []"
| "created (Inl err # rs) = created rs"
| "created (Inr c # rs) = c # created rs"

fun failed :: "(string + customer) list \<Rightarrow> string list" where
  "failed [] = []"
| "failed (Inl err # rs) = err # failed rs"
| "failed (Inr c # rs) = failed rs"


text \<open>
  The instance that \<^verbatim>\<open>Customer(name=..., email=..., phone=...)\<close> builds and the row that
  saving it adds to the store. A row passes validation when its email is new to the store,
  its phone passes \<open>validate_phone\<close> and \<^verbatim>\<open>full_clean()\<close> raises nothing; it is valid
  when, besides, the store takes its \<^verbatim>\<open>save()\<close>.
\<close>

definition unsaved_customer :: "customer_input \<Rightarrow> customer" where
  "unsaved_customer inp =
     \<lparr>c_id = None, c_name = in_name inp, c_email = in_email inp, c_phone = in_phone inp\<rparr>"

definition new_customer :: "db \<Rightarrow> customer_input \<Rightarrow> customer" where
  "new_customer d inp =
     \<lparr>c_id = Some (next_id (map c_id (customers d))), c_name = in_name inp,
      c_email = in_email inp, c_phone = in_phone inp\<rparr>"



text \<open>
  The instance that \<^verbatim>\<open>Product(name=..., price=..., stock=stock)\<close> builds, with an omitted
  stock replaced by 0, and the row that saving it adds to the store when the price is the
  finite number \<open>r\<close>.
\<close>

definition product_instance_of :: "product_input \<Rightarrow> product_instance" where
  "product_instance_of inp =
     \<lparr>pi_name = pin_name inp, pi_price = pin_price inp,
      pi_stock = (case pin_stock inp of Some s \<Rightarrow> s | None \<Rightarrow> 0)\<rparr>"

definition new_product :: "db \<Rightarrow> product_input \<Rightarrow> rat \<Rightarrow> product" where
  "new_product d inp r =
     \<lparr>p_id = Some (next_id (map p_id (products d))), p_name = pin_name inp, p_price = r,
      p_stock = (case pin_stock inp of Some s \<Rightarrow> s | None \<Rightarrow> 0)\<rparr>"

text \<open>
  The instance that the item loop hands to \<^verbatim>\<open>OrderItem.objects.create\<close> for a product, and
  the order row that a successful call adds.
\<close>

definition item_for :: "order \<Rightarrow> product \<Rightarrow> order_item" where
  "item_for x p =
     \<lparr>i_id = None, i_order = o_id x, i_product = p_id p, i_quantity = 1,
      i_unit_price = p_price p\<rparr>"

definition new_order :: "db \<Rightarrow> customer \<Rightarrow> product list \<Rightarrow> order" where
  "new_order d c ps =
     \<lparr>o_id = Some (next_id (map o_id (orders d))), o_customer = c_id c,
      o_total_amount = sum_list (map p_price ps)\<rparr>"

subsection \<open>Sample data\<close>

text \<open>A small store: one customer, two products priced 10 and 20, no orders.\<close>

definition sample_db :: db where
  "sample_db =
     \<lparr>customers = [\<lparr>c_id = Some 1, c_name = ''Alice Johnson'', c_email = ''alice@example.com'',
                     c_phone = Some ''+44555123456''\<rparr>],
      products = [\<lparr>p_id = Some 1, p_name = ''Mouse'', p_price = 10, p_stock = 50\<rparr>,
                  \<lparr>p_id = Some 2, p_name = ''Keyboard'', p_price = 20, p_stock = 25\<rparr>],
      orders = [], order_items = []\<rparr>"








text \<open>A model layer whose \<^verbatim>\<open>full_clean()\<close> refuses every product.\<close>

definition refusing_clean :: orm where
  "refusing_clean d call =
     (case call of
        Full_clean_product p \<Rightarrow>
          Some (ValidationError ''{'name': ['Product with this Name already exists.']}'')
      | _ \<Rightarrow> None)"

text \<open>A model layer that refuses every order item but the first of the store.\<close>

definition failing_second_item :: orm where
  "failing_second_item d call =
     (case call of
        Create_order_item it \<Rightarrow>
          if order_items d = [] then None else Some (OtherException ''database is locked'')
      | _ \<Rightarrow> None)"

section \<open>Properties\<close>

subsection \<open>The loop of bulkCreateCustomers\<close>

lemma atomic_Inr: "atomic d0 nr (d', Inr v) = (if nr then d0 else d', Inr v)"
  by (simp add: atomic_def)

lemma bulk_create_customers_loop:
  "bulk_create_customers m d inputs =
     (case bulk_loop m inputs d False [] [] of
        (d', nr, cs, es) \<Rightarrow>
          (if nr then d else d',
           \<lparr>be_customers = cs, be_errors = es, be_success = (cs \<noteq> [])\<rparr>))"
  by (simp add: bulk_create_customers_def atomic_Inr split: prod.splits)

lemma bulk_loop_acc:
  "bulk_loop m inps d nr cs es =
     (case bulk_loop m inps d nr [] [] of (d', nr', cs', es') \<Rightarrow> (d', nr', cs @ cs', es @ es'))"
proof (induction inps arbitrary: d nr cs es)
  case Nil
  show ?case by simp
next
  case (Cons inp inps)
  obtain d1 nr1 r where row: "bulk_row m d nr inp = (d1, nr1, r)"
    by (cases "bulk_row m d nr inp")
  show ?case
  proof (cases r)
    case (Inl err)
    show ?thesis
      using row Inl Cons.IH [of d1 nr1 cs "es @ [err]"] Cons.IH [of d1 nr1 "[]" "[err]"]
      by (simp split: prod.splits)
  next
    case (Inr c)
    show ?thesis
      using row Inr Cons.IH [of d1 nr1 "cs @ [c]" es] Cons.IH [of d1 nr1 "[c]" "[]"]
      by (simp split: prod.splits)
  qed
qed

lemma bulk_loop_Cons_Inl:
  "bulk_row m d nr inp = (d1, nr1, Inl err) \<Longrightarrow> bulk_loop m inps d1 nr1 [] [] = (d2, nr2, cs2, es2)
   \<Longrightarrow> bulk_loop m (inp # inps) d nr [] [] = (d2, nr2, cs2, err # es2)"
  using bulk_loop_acc [of m inps d1 nr1 "[]" "[err]"] by simp

lemma bulk_loop_Cons_Inr:
  "bulk_row m d nr inp = (d1, nr1, Inr c) \<Longrightarrow> bulk_loop m inps d1 nr1 [] [] = (d2, nr2, cs2, es2)
   \<Longrightarrow> bulk_loop m (inp # inps) d nr [] [] = (d2, nr2, c # cs2, es2)"
  using bulk_loop_acc [of m inps d1 nr1 "[c]" "[]"] by simp

lemma bulk_loop_outcomes:
  "bulk_loop m inps d nr [] [] = (d', nr', cs, es) \<Longrightarrow>
     cs = created (bulk_outcomes m d nr inps) \<and> es = failed (bulk_outcomes m d nr inps)"
proof (induction inps arbitrary: d nr d' nr' cs es)
  case Nil
  then show ?case by simp
next
  case (Cons inp inps)
  obtain d1 nr1 r where row: "bulk_row m d nr inp = (d1, nr1, r)"
    by (cases "bulk_row m d nr inp")
  obtain d2 nr2 cs2 es2 where rest: "bulk_loop m inps d1 nr1 [] [] = (d2, nr2, cs2, es2)"
    by (cases "bulk_loop m inps d1 nr1 [] []")
  have ih: "cs2 = created (bulk_outcomes m d1 nr1 inps) \<and> es2 = failed (bulk_outcomes m d1 nr1 inps)"
    using Cons.IH [OF rest] .
  show ?case
  proof (cases r)
    case (Inl err)
    have "bulk_loop m (inp # inps) d nr [] [] = (d2, nr2, cs2, err # es2)"
      using row Inl rest bulk_loop_Cons_Inl by blast
    with Cons.prems ih row Inl show ?thesis by simp
  next
    case (Inr c)
    have "bulk_loop m (inp # inps) d nr [] [] = (d2, nr2, c # cs2, es2)"
      using row Inr rest bulk_loop_Cons_Inr by blast
    with Cons.prems ih row Inr show ?thesis by simp
  qed
qed

lemma length_bulk_outcomes: "length (bulk_outcomes m d nr inps) = length inps"
  by (induction inps arbitrary: d nr) (auto split: prod.splits)

lemma length_created_failed: "length (created rs) + length (failed rs) = length rs"
  by (induction rs rule: created.induct) auto


lemma validate_and_clean_passes:
  "validate_phone (in_phone inp) = Inr True \<Longrightarrow>
   m d (Full_clean_customer (unsaved_customer inp)) = None \<Longrightarrow>
   validate_and_clean m d inp = Inr (unsaved_customer inp)"
  by (simp add: validate_and_clean_def full_clean_customer_def unsaved_customer_def)


lemma save_customer_accepted:
  "m d (Save_customer (unsaved_customer inp)) = None \<Longrightarrow>
   save_customer m d (unsaved_customer inp) =
     Inr (d\<lparr>customers := customers d @ [new_customer d inp]\<rparr>, new_customer d inp)"
  by (simp add: save_customer_def unsaved_customer_def new_customer_def Let_def)












text \<open>
  C10: in every bulkCreateCustomers call each input entry contributes exactly one outcome,
  a customer appended to the returned customers or an error string appended to the errors:
  the two lists together are as long as the input list.
\<close>

theorem bulk_one_outcome_per_input:
  "length (be_customers (snd (bulk_create_customers m d inputs)))
     + length (be_errors (snd (bulk_create_customers m d inputs))) = length inputs"
proof -
  obtain d' nr cs es where loop: "bulk_loop m inputs d False [] [] = (d', nr, cs, es)"
    by (cases "bulk_loop m inputs d False [] []")
  have "cs = created (bulk_outcomes m d False inputs)" "es = failed (bulk_outcomes m d False inputs)"
    using bulk_loop_outcomes [OF loop] by simp_all
  then have "length cs + length es = length inputs"
    by (simp add: length_created_failed length_bulk_outcomes)
  then show ?thesis by (simp add: bulk_create_customers_loop loop)
qed









subsection \<open>createCustomer\<close>

lemma py_repr_plain:
  "list_all (\<lambda>c. printable c \<and> c \<noteq> CHR 0x27 \<and> c \<noteq> CHR 0x5C) s \<Longrightarrow>
     py_repr s = [CHR 0x27] @ s @ [CHR 0x27]"
proof -
  assume a: "list_all (\<lambda>c. printable c \<and> c \<noteq> CHR 0x27 \<and> c \<noteq> CHR 0x5C) s"
  then have q: "CHR 0x27 \<notin> set s" by (auto simp: list_all_iff)
  have "concat (map (repr_char (CHR 0x27)) s) = s"
    using a
  proof (induction s)
    case Nil
    then show ?case by simp
  next
    case (Cons c s)
    then have "repr_char (CHR 0x27) c = [c]"
      by (auto simp: repr_char_def printable_def)
    then show ?case using Cons by simp
  qed
  then show ?thesis using q by (simp add: py_repr_def Let_def)
qed

lemma is_ValidationError_raise [simp]: "is_ValidationError (raise_ValidationError s)"
  by (simp add: raise_ValidationError_def)

lemma str_exn_raise: "str_exn (raise_ValidationError s) = ''['' @ py_repr s @ '']''"
  by (simp add: raise_ValidationError_def)

lemmas repr_eval = str_exn_raise py_repr_def repr_char_def printable_def Let_def

text \<open>
  C3: a createCustomer call whose email is already the email of a persisted customer
  answers customer null, success false and the message of the validation error, and
  leaves the store as it was, so the number of customers does not change.
\<close>

theorem create_customer_duplicate_email:
  "email_exists d (in_email inp) \<Longrightarrow>
     create_customer m d inp =
       (d, \<lparr>ce_customer = None, ce_message = ''['Email already exists']'', ce_success = False\<rparr>)
     \<and> length (customers (fst (create_customer m d inp))) = length (customers d)"
  by (simp add: create_customer_def create_customer_try_def repr_eval)

theorem create_customer_duplicate_email_witness:
  "email_exists sample_db ''alice@example.com''
   \<and> create_customer accepting sample_db
         \<lparr>in_name = ''Alice'', in_email = ''alice@example.com'', in_phone = None\<rparr>
       = (sample_db, \<lparr>ce_customer = None, ce_message = ''['Email already exists']'',
                       ce_success = False\<rparr>)"
proof -
  have h: "email_exists sample_db
      (in_email \<lparr>in_name = ''Alice'', in_email = ''alice@example.com'', in_phone = None\<rparr>)"
    by (simp add: email_exists_def sample_db_def)
  show ?thesis
    using h create_customer_duplicate_email [OF h, of accepting] by simp
qed

lemma validate_phone_falsy:
  "validate_phone None = Inr True" "validate_phone (Some '''') = Inr True"
  by (simp_all add: validate_phone_def)

text \<open>
  With a new email, a phone that is not empty and a model layer that accepts the instance,
  createCustomer succeeds exactly when the phone matches the pattern.
\<close>

lemma create_customer_phone:
  assumes "\<not> email_exists d (in_email inp)" and "in_phone inp = Some ph" and "ph \<noteq> []"
    and "m d (Full_clean_customer (unsaved_customer inp)) = None"
    and "m d (Save_customer (unsaved_customer inp)) = None"
  shows "ce_success (snd (create_customer m d inp)) = re_match pattern ph"
proof (cases "re_match pattern ph")
  case True
  then have "validate_phone (in_phone inp) = Inr True"
    using assms(2,3) by (simp add: validate_phone_def)
  then show ?thesis
    using True assms(1,4,5)
    by (simp add: create_customer_def create_customer_try_def validate_and_clean_passes
        save_customer_accepted)
next
  case False
  then show ?thesis
    using assms(1,2,3)
    by (simp add: create_customer_def create_customer_try_def validate_and_clean_def
        validate_phone_def)
qed

text \<open>
  C4: the phone \<^verbatim>\<open>+1234567890\<close>, which the specification, the comment of line 89 and
  the error message itself give as an accepted format, does not match the pattern: after
  the plus sign the pattern wants one to three digits and then ten more. createCustomer
  with a new email and this phone fails.
\<close>

theorem phone_plus_ten_digits_rejected:
  "\<not> re_match pattern ''+1234567890''
   \<and> validate_phone (Some ''+1234567890'')
       = Inl (raise_ValidationError
               ''Invalid phone number format. Use +1234567890 or 123-456-7890'')
   \<and> create_customer accepting empty_db
         \<lparr>in_name = ''Alice Johnson'', in_email = ''alice@example.com'',
          in_phone = Some ''+1234567890''\<rparr>
     = (empty_db,
        \<lparr>ce_customer = None,
         ce_message = ''['Invalid phone number format. Use +1234567890 or 123-456-7890']'',
         ce_success = False\<rparr>)"
proof -
  have no: "\<not> re_match pattern ''+1234567890''"
    by (simp add: re_match_def pattern_def seqs_def digit_def sep_def)
  then have v: "validate_phone (Some ''+1234567890'')
       = Inl (raise_ValidationError
               ''Invalid phone number format. Use +1234567890 or 123-456-7890'')"
    by (simp add: validate_phone_def)
  have "create_customer accepting empty_db
         \<lparr>in_name = ''Alice Johnson'', in_email = ''alice@example.com'',
          in_phone = Some ''+1234567890''\<rparr>
     = (empty_db,
        \<lparr>ce_customer = None,
         ce_message = ''['Invalid phone number format. Use +1234567890 or 123-456-7890']'',
         ce_success = False\<rparr>)"
    using v
    by (simp add: create_customer_def create_customer_try_def validate_and_clean_def
        email_exists_def empty_db_def repr_eval)
  with no v show ?thesis by simp
qed

subsection \<open>createProduct and the point queries\<close>

text \<open>When createProduct succeeds, and that a failing call leaves the store as it was.\<close>

lemma create_product_success_iff:
  "pe_success (snd (create_product m d inp)) =
     ((\<exists>r. pin_price inp = Finite r \<and> 0 < r)
      \<and> (\<forall>s. pin_stock inp = Some s \<longrightarrow> 0 \<le> s)
      \<and> m d (Full_clean_product (product_instance_of inp)) = None
      \<and> m d (Save_product (product_instance_of inp)) = None)"
proof (cases "pin_price inp")
  case (Finite r)
  then show ?thesis
    by (cases "pin_stock inp"; cases "m d (Full_clean_product (product_instance_of inp))";
        cases "m d (Save_product (product_instance_of inp))")
       (auto simp: create_product_def create_product_try_def dec_le_zero_def Let_def
          full_clean_product_def save_product_def product_instance_of_def)
next
  case Infinity
  then show ?thesis
    by (cases "pin_stock inp"; cases "m d (Full_clean_product (product_instance_of inp))";
        cases "m d (Save_product (product_instance_of inp))")
       (auto simp: create_product_def create_product_try_def dec_le_zero_def Let_def
          full_clean_product_def save_product_def product_instance_of_def invalid_operation_def)
next
  case NegInfinity
  then show ?thesis
    by (simp add: create_product_def create_product_try_def dec_le_zero_def)
next
  case NaN
  then show ?thesis
    by (simp add: create_product_def create_product_try_def dec_le_zero_def invalid_operation_def)
qed

lemma create_product_try_Inl: "create_product_try m d inp = (d', Inl e) \<Longrightarrow> d' = d"
  by (auto simp: create_product_try_def Let_def split: sum.splits bool.splits if_splits prod.splits)

lemma create_product_failure:
  "\<not> pe_success (snd (create_product m d inp)) \<Longrightarrow>
     fst (create_product m d inp) = d \<and> pe_product (snd (create_product m d inp)) = None"
proof -
  assume f: "\<not> pe_success (snd (create_product m d inp))"
  obtain d' r where t: "create_product_try m d inp = (d', r)"
    by (cases "create_product_try m d inp")
  show ?thesis
  proof (cases r)
    case (Inl e)
    then have "d' = d" using t create_product_try_Inl by blast
    then show ?thesis using t Inl by (simp add: create_product_def)
  next
    case (Inr x)
    then show ?thesis using t f by (simp add: create_product_def)
  qed
qed

lemma create_product_ok:
  "pin_price inp = Finite r \<Longrightarrow> 0 < r \<Longrightarrow> \<forall>s. pin_stock inp = Some s \<longrightarrow> 0 \<le> s \<Longrightarrow>
   m d (Full_clean_product (product_instance_of inp)) = None \<Longrightarrow>
   m d (Save_product (product_instance_of inp)) = None \<Longrightarrow>
     create_product m d inp =
       (d\<lparr>products := products d @ [new_product d inp r]\<rparr>,
        \<lparr>pe_product = Some (new_product d inp r), pe_message = ''Product created successfully'',
         pe_success = True\<rparr>)"
  by (cases "pin_stock inp")
     (simp_all add: create_product_def create_product_try_def dec_le_zero_def
        full_clean_product_def save_product_def product_instance_of_def new_product_def Let_def)

lemma create_product_price_message:
  "pin_price inp = Finite r \<Longrightarrow> r \<le> 0 \<Longrightarrow>
     create_product m d inp =
       (d, \<lparr>pe_product = None, pe_message = ''['Price must be positive']'', pe_success = False\<rparr>)"
  by (simp add: create_product_def create_product_try_def dec_le_zero_def repr_eval)

lemma create_product_stock_message:
  "pin_price inp = Finite r \<Longrightarrow> 0 < r \<Longrightarrow> pin_stock inp = Some s \<Longrightarrow> s < 0 \<Longrightarrow>
     create_product m d inp =
       (d, \<lparr>pe_product = None, pe_message = ''['Stock cannot be negative']'', pe_success = False\<rparr>)"
  by (simp add: create_product_def create_product_try_def dec_le_zero_def repr_eval)

text \<open>
  C7, as the specification states it, fails on a price that is no number, and on a product
  that \<^verbatim>\<open>full_clean()\<close> refuses: the price is not at most 0, the stock is not negative,
  and the product is not persisted.
\<close>

theorem create_product_not_persisted_counterexample:
  "create_product accepting sample_db \<lparr>pin_name = ''Pen'', pin_price = NaN, pin_stock = None\<rparr>
     = (sample_db,
        \<lparr>pe_product = None,
         pe_message = ''Error creating product: [<class 'decimal.InvalidOperation'>]'',
         pe_success = False\<rparr>)
   \<and> create_product refusing_clean sample_db
        \<lparr>pin_name = ''Pen'', pin_price = Finite 5, pin_stock = Some 1\<rparr>
     = (sample_db,
        \<lparr>pe_product = None,
         pe_message = ''{'name': ['Product with this Name already exists.']}'',
         pe_success = False\<rparr>)"
  by (simp add: create_product_def create_product_try_def dec_le_zero_def invalid_operation_def
      full_clean_product_def refusing_clean_def)

text \<open>
  C7, amended: a createProduct call with price at most 0 fails (product null, success
  false, store unchanged); so does a call whose stock is given and negative; so does a call
  whose price is no finite number, or whose instance \<^verbatim>\<open>full_clean()\<close> or \<^verbatim>\<open>save()\<close>
  refuses. Any other call persists the product and returns it, and an omitted stock is
  persisted as 0.
\<close>

theorem create_product_contract:
  "(pin_price inp = Finite r \<and> r \<le> 0 \<longrightarrow>
      fst (create_product m d inp) = d
      \<and> pe_product (snd (create_product m d inp)) = None
      \<and> \<not> pe_success (snd (create_product m d inp)))
   \<and> ((\<exists>s. pin_stock inp = Some s \<and> s < 0) \<longrightarrow>
      fst (create_product m d inp) = d
      \<and> pe_product (snd (create_product m d inp)) = None
      \<and> \<not> pe_success (snd (create_product m d inp)))
   \<and> (pin_price inp \<in> {NaN, Infinity, NegInfinity}
       \<or> (\<exists>e. m d (Full_clean_product (product_instance_of inp)) = Some e)
       \<or> (\<exists>e. m d (Save_product (product_instance_of inp)) = Some e) \<longrightarrow>
      fst (create_product m d inp) = d
      \<and> pe_product (snd (create_product m d inp)) = None
      \<and> \<not> pe_success (snd (create_product m d inp)))
   \<and> (pin_price inp = Finite r \<and> 0 < r \<and> (\<forall>s. pin_stock inp = Some s \<longrightarrow> 0 \<le> s)
       \<and> m d (Full_clean_product (product_instance_of inp)) = None
       \<and> m d (Save_product (product_instance_of inp)) = None \<longrightarrow>
      create_product m d inp =
        (d\<lparr>products := products d @ [new_product d inp r]\<rparr>,
         \<lparr>pe_product = Some (new_product d inp r), pe_message = ''Product created successfully'',
          pe_success = True\<rparr>)
      \<and> p_price (new_product d inp r) = r
      \<and> (pin_stock inp = None \<longrightarrow> p_stock (new_product d inp r) = 0))"
proof -
  have fails: "fst (create_product m d inp) = d
      \<and> pe_product (snd (create_product m d inp)) = None
      \<and> \<not> pe_success (snd (create_product m d inp))"
    if "\<not> pe_success (snd (create_product m d inp))"
    using that create_product_failure [of m d inp] by simp
  have c1: "\<not> pe_success (snd (create_product m d inp))" if "pin_price inp = Finite r \<and> r \<le> 0"
    using that by (auto simp: create_product_success_iff)
  have c2: "\<not> pe_success (snd (create_product m d inp))" if "\<exists>s. pin_stock inp = Some s \<and> s < 0"
    using that by (auto simp: create_product_success_iff)
  have c3: "\<not> pe_success (snd (create_product m d inp))"
    if "pin_price inp \<in> {NaN, Infinity, NegInfinity}
       \<or> (\<exists>e. m d (Full_clean_product (product_instance_of inp)) = Some e)
       \<or> (\<exists>e. m d (Save_product (product_instance_of inp)) = Some e)"
    using that by (auto simp: create_product_success_iff)
  have c4: "create_product m d inp =
        (d\<lparr>products := products d @ [new_product d inp r]\<rparr>,
         \<lparr>pe_product = Some (new_product d inp r), pe_message = ''Product created successfully'',
          pe_success = True\<rparr>)
      \<and> p_price (new_product d inp r) = r
      \<and> (pin_stock inp = None \<longrightarrow> p_stock (new_product d inp r) = 0)"
    if "pin_price inp = Finite r \<and> 0 < r \<and> (\<forall>s. pin_stock inp = Some s \<longrightarrow> 0 \<le> s)
       \<and> m d (Full_clean_product (product_instance_of inp)) = None
       \<and> m d (Save_product (product_instance_of inp)) = None"
    using that create_product_ok [of inp r m d] by (simp add: new_product_def)
  show ?thesis using fails c1 c2 c3 c4 by blast
qed

theorem create_product_contract_witness:
  "\<not> pe_success (snd (create_product accepting sample_db
        \<lparr>pin_name = ''Pen'', pin_price = Finite 0, pin_stock = None\<rparr>))
   \<and> \<not> pe_success (snd (create_product accepting sample_db
        \<lparr>pin_name = ''Pen'', pin_price = Finite (- 5), pin_stock = None\<rparr>))
   \<and> \<not> pe_success (snd (create_product accepting sample_db
        \<lparr>pin_name = ''Pen'', pin_price = Finite 5, pin_stock = Some (- 1)\<rparr>))
   \<and> \<not> pe_success (snd (create_product accepting sample_db
        \<lparr>pin_name = ''Pen'', pin_price = NaN, pin_stock = None\<rparr>))
   \<and> \<not> pe_success (snd (create_product refusing_clean sample_db
        \<lparr>pin_name = ''Pen'', pin_price = Finite 5, pin_stock = Some 1\<rparr>))
   \<and> create_product accepting sample_db
        \<lparr>pin_name = ''Pen'', pin_price = Finite (2999 / 100), pin_stock = None\<rparr>
      = (sample_db\<lparr>products := products sample_db
             @ [\<lparr>p_id = Some 3, p_name = ''Pen'', p_price = 2999 / 100, p_stock = 0\<rparr>]\<rparr>,
         \<lparr>pe_product = Some \<lparr>p_id = Some 3, p_name = ''Pen'', p_price = 2999 / 100, p_stock = 0\<rparr>,
          pe_message = ''Product created successfully'', pe_success = True\<rparr>)"
  using create_product_contract
          [of "\<lparr>pin_name = ''Pen'', pin_price = Finite 0, pin_stock = None\<rparr>" 0 accepting sample_db]
        create_product_contract
          [of "\<lparr>pin_name = ''Pen'', pin_price = Finite (- 5), pin_stock = None\<rparr>" "- 5"
              accepting sample_db]
        create_product_contract
          [of "\<lparr>pin_name = ''Pen'', pin_price = Finite 5, pin_stock = Some (- 1)\<rparr>" 5
              accepting sample_db]
        create_product_contract
          [of "\<lparr>pin_name = ''Pen'', pin_price = NaN, pin_stock = None\<rparr>" 0 accepting sample_db]
        create_product_contract
          [of "\<lparr>pin_name = ''Pen'', pin_price = Finite 5, pin_stock = Some 1\<rparr>" 5
              refusing_clean sample_db]
        create_product_contract
          [of "\<lparr>pin_name = ''Pen'', pin_price = Finite (2999 / 100), pin_stock = None\<rparr>"
              "2999 / 100" accepting sample_db]
  by (simp add: accepting_def refusing_clean_def new_product_def product_instance_of_def
      next_id_def sample_db_def)

text \<open>
  C9, as the specification states it, fails on an id that is no number, such as the global
  id that the schema itself hands out for a customer: the id resolves to no row, and the
  resolver raises ValueError, not the not-found fault.
\<close>

theorem point_query_not_a_number_counterexample:
  "resolve_customer sample_db ''abc''
     = Inl (ValueError ''Field 'id' expected a number but got 'abc'.'')
   \<and> resolve_customer sample_db ''abc''
     \<noteq> Inl (DoesNotExist ''Customer matching query does not exist.'')
   \<and> resolve_customer sample_db ''Q3VzdG9tZXJUeXBlOjE=''
     = Inl (ValueError ''Field 'id' expected a number but got 'Q3VzdG9tZXJUeXBlOjE='.'')"
  by (simp add: resolve_customer_def objects_get_customer_def field_id_error_def py_int_def
      strip_def is_space_def parse_digits_def is_digit_def repr_eval)

lemma find_key_None:
  "Some k \<notin> set (map f xs) \<Longrightarrow> find (\<lambda>x. f x = Some k) xs = None"
  by (induction xs) auto

text \<open>
  C9, amended: a point query (customer, product or order by id) whose id resolves to no
  persisted row raises: the DoesNotExist fault of its model when the id is a number that is
  the key of no row, ValueError when the id is no number. The resolver has no handler, so
  the exception leaves it and the response holds a null field and an entry of the errors
  list, not an envelope.
\<close>

theorem point_query_faults:
  "(py_int v = None \<longrightarrow>
      resolve_customer d v = Inl (field_id_error v)
      \<and> resolve_product d v = Inl (field_id_error v)
      \<and> resolve_order d v = Inl (field_id_error v)
      \<and> execute_field (resolve_customer d v)
          = \<lparr>data = None, errors = [str_exn (field_id_error v)]\<rparr>
      \<and> execute_field (resolve_product d v)
          = \<lparr>data = None, errors = [str_exn (field_id_error v)]\<rparr>
      \<and> execute_field (resolve_order d v)
          = \<lparr>data = None, errors = [str_exn (field_id_error v)]\<rparr>)
   \<and> (py_int v = Some k \<and> Some k \<notin> set (map c_id (customers d)) \<longrightarrow>
      resolve_customer d v = Inl (DoesNotExist ''Customer matching query does not exist.'')
      \<and> execute_field (resolve_customer d v)
          = \<lparr>data = None, errors = [''Customer matching query does not exist.'']\<rparr>)
   \<and> (py_int v = Some k \<and> Some k \<notin> set (map p_id (products d)) \<longrightarrow>
      resolve_product d v = Inl (DoesNotExist ''Product matching query does not exist.'')
      \<and> execute_field (resolve_product d v)
          = \<lparr>data = None, errors = [''Product matching query does not exist.'']\<rparr>)
   \<and> (py_int v = Some k \<and> Some k \<notin> set (map o_id (orders d)) \<longrightarrow>
      resolve_order d v = Inl (DoesNotExist ''Order matching query does not exist.'')
      \<and> execute_field (resolve_order d v)
          = \<lparr>data = None, errors = [''Order matching query does not exist.'']\<rparr>)"
  by (simp add: resolve_customer_def resolve_product_def resolve_order_def
      objects_get_customer_def objects_get_product_def objects_get_order_def
      execute_field_def find_key_None)

theorem point_query_faults_witness:
  "py_int ''abc'' = None \<and> py_int ''7'' = Some 7
   \<and> Some 7 \<notin> set (map c_id (customers sample_db))
   \<and> Some 7 \<notin> set (map p_id (products sample_db))
   \<and> Some 7 \<notin> set (map o_id (orders sample_db))
   \<and> execute_field (resolve_customer sample_db ''7'')
       = \<lparr>data = None, errors = [''Customer matching query does not exist.'']\<rparr>
   \<and> execute_field (resolve_product sample_db ''7'')
       = \<lparr>data = None, errors = [''Product matching query does not exist.'']\<rparr>
   \<and> execute_field (resolve_order sample_db ''7'')
       = \<lparr>data = None, errors = [''Order matching query does not exist.'']\<rparr>
   \<and> execute_field (resolve_customer sample_db ''abc'')
       = \<lparr>data = None, errors = [''Field 'id' expected a number but got 'abc'.'']\<rparr>"
proof -
  have a: "py_int ''abc'' = None"
    by (simp add: py_int_def strip_def is_space_def parse_digits_def is_digit_def)
  have b: "py_int ''7'' = Some 7"
    by (simp add: py_int_def strip_def is_space_def parse_digits_def is_digit_def digit_value_def)
  have e: "str_exn (field_id_error ''abc'') = ''Field 'id' expected a number but got 'abc'.''"
    by (simp add: field_id_error_def repr_eval)
  have n: "Some 7 \<notin> set (map c_id (customers sample_db))"
    "Some 7 \<notin> set (map p_id (products sample_db))"
    "Some 7 \<notin> set (map o_id (orders sample_db))"
    by (simp_all add: sample_db_def)
  have r1: "execute_field (resolve_customer sample_db ''abc'')
      = \<lparr>data = None, errors = [str_exn (field_id_error ''abc'')]\<rparr>"
    using point_query_faults [of "''abc''" sample_db 0] a by blast
  have r2: "execute_field (resolve_customer sample_db ''7'')
       = \<lparr>data = None, errors = [''Customer matching query does not exist.'']\<rparr>"
    "execute_field (resolve_product sample_db ''7'')
       = \<lparr>data = None, errors = [''Product matching query does not exist.'']\<rparr>"
    "execute_field (resolve_order sample_db ''7'')
       = \<lparr>data = None, errors = [''Order matching query does not exist.'']\<rparr>"
    using point_query_faults [of "''7''" sample_db 7] b n by blast+
  show ?thesis using a b n r1 r2 e by simp
qed

subsection \<open>createOrder\<close>

lemma resolve_products_all:
  "map (objects_get_product d) pids = map Inr qs \<Longrightarrow>
     resolve_products d pids ps t = Inr (ps @ qs, t + sum_list (map p_price qs))"
proof (induction pids arbitrary: qs ps t)
  case Nil
  then show ?case by simp
next
  case (Cons pid pids)
  then obtain q qs' where qs: "qs = q # qs'" "objects_get_product d pid = Inr q"
    "map (objects_get_product d) pids = map Inr qs'"
    by (cases qs) auto
  show ?case using qs Cons.IH [OF qs(3), of "ps @ [q]" "t + p_price q"]
    by (simp add: add.assoc)
qed

lemma resolve_products_stops:
  "map (objects_get_product d) pre = map Inr qs \<Longrightarrow> objects_get_product d pid = Inl e \<Longrightarrow>
     resolve_products d (pre @ pid # post) ps t
       = Inl (if is_DoesNotExist e then product_missing pid else e)"
proof (induction pre arbitrary: qs ps t)
  case Nil
  then show ?case by simp
next
  case (Cons a pre)
  then obtain q qs' where qs: "qs = q # qs'" "objects_get_product d a = Inr q"
    "map (objects_get_product d) pre = map Inr qs'"
    by (cases qs) auto
  show ?case using qs Cons.IH [OF qs(3) Cons.prems(2)] by simp
qed

lemma resolve_cases:
  "(\<exists>qs. map (objects_get_product d) pids = map Inr qs) \<or>
   (\<exists>pre pid post qs e. pids = pre @ pid # post
       \<and> map (objects_get_product d) pre = map Inr qs \<and> objects_get_product d pid = Inl e)"
proof (induction pids)
  case Nil
  then show ?case by simp
next
  case (Cons a pids)
  show ?case
  proof (cases "objects_get_product d a")
    case (Inl e)
    have "a # pids = [] @ a # pids \<and> map (objects_get_product d) [] = map Inr []
        \<and> objects_get_product d a = Inl e"
      using Inl by simp
    then show ?thesis by blast
  next
    case (Inr q)
    from Cons.IH show ?thesis
    proof
      assume "\<exists>qs. map (objects_get_product d) pids = map Inr qs"
      then obtain qs where "map (objects_get_product d) pids = map Inr qs" by blast
      then have "map (objects_get_product d) (a # pids) = map Inr (q # qs)" using Inr by simp
      then show ?thesis by blast
    next
      assume "\<exists>pre pid post qs e. pids = pre @ pid # post \<and>
          map (objects_get_product d) pre = map Inr qs \<and> objects_get_product d pid = Inl e"
      then obtain pre pid post qs e where h: "pids = pre @ pid # post"
        "map (objects_get_product d) pre = map Inr qs" "objects_get_product d pid = Inl e"
        by blast
      have "a # pids = (a # pre) @ pid # post \<and>
          map (objects_get_product d) (a # pre) = map Inr (q # qs)
          \<and> objects_get_product d pid = Inl e"
        using h Inr by simp
      then show ?thesis by blast
    qed
  qed
qed

lemma objects_get_product_Inl:
  "objects_get_product d v = Inl e \<Longrightarrow>
     (py_int v = None \<and> e = field_id_error v \<and> \<not> is_DoesNotExist e)
     \<or> (py_int v \<noteq> None \<and> e = DoesNotExist ''Product matching query does not exist.'')"
  by (auto simp: objects_get_product_def field_id_error_def split: option.splits)

lemma repr_char_plain:
  assumes "printable c" and "c \<noteq> q" and "c \<noteq> CHR 0x5C"
  shows "repr_char q c = [c]"
proof -
  have "c \<noteq> CHR 0x0A" "c \<noteq> CHR 0x0D" "c \<noteq> CHR 0x09"
    using assms(1) by (auto simp: printable_def)
  then show ?thesis using assms by (simp add: repr_char_def)
qed

lemma py_repr_second:
  assumes "printable c" and "c \<noteq> CHR 0x27" and "c \<noteq> CHR 0x22" and "c \<noteq> CHR 0x5C"
  shows "hd (tl (py_repr (c # s))) = c"
proof -
  define q where "q = (if CHR 0x27 \<in> set (c # s) \<and> CHR 0x22 \<notin> set (c # s)
      then CHR 0x22 else CHR 0x27)"
  have "c \<noteq> q" using assms(2,3) by (simp add: q_def)
  then have r: "repr_char q c = [c]" using assms(1,4) by (simp add: repr_char_plain)
  have "py_repr (c # s) = [q] @ concat (map (repr_char q) (c # s)) @ [q]"
    unfolding py_repr_def Let_def q_def ..
  then have "py_repr (c # s) = q # c # (concat (map (repr_char q) s) @ [q])"
    using r by simp
  then show ?thesis by simp
qed

lemma product_missing_not_empty_list:
  "product_missing v \<noteq> raise_ValidationError ''At least one product is required''"
proof
  assume "product_missing v = raise_ValidationError ''At least one product is required''"
  then have "py_repr (''Product with ID '' @ v @ '' does not exist'')
      = py_repr ''At least one product is required''"
    by (simp add: product_missing_def raise_ValidationError_def)
  then have "hd (tl (py_repr (CHR ''P'' # (''roduct with ID '' @ v @ '' does not exist''))))
      = hd (tl (py_repr (CHR ''A'' # ''t least one product is required'')))"
    by simp
  moreover have "hd (tl (py_repr (CHR ''P'' # (''roduct with ID '' @ v @ '' does not exist''))))
      = CHR ''P''"
    by (rule py_repr_second) (simp_all add: printable_def)
  moreover have "hd (tl (py_repr (CHR ''A'' # ''t least one product is required''))) = CHR ''A''"
    by (rule py_repr_second) (simp_all add: printable_def)
  ultimately show False by simp
qed

lemma create_items_Inr:
  "create_items m d x ps = (d', Inr u) \<Longrightarrow>
   \<exists>its. d' = d\<lparr>order_items := order_items d @ its\<rparr>
     \<and> map (\<lambda>it. it\<lparr>i_id := None\<rparr>) its = map (item_for x) ps"
proof (induction ps arbitrary: d)
  case Nil
  then have "d' = d\<lparr>order_items := order_items d @ []\<rparr>" by simp
  then show ?case by (metis list.simps(8))
next
  case (Cons p ps)
  show ?case
  proof (cases "m d (Create_order_item (item_for x p))")
    case (Some e)
    then have "create_items m d x (p # ps) = (d, Inl e)"
      by (simp add: create_order_item_def item_for_def)
    with Cons.prems show ?thesis by simp
  next
    case None
    define it where "it = (item_for x p)\<lparr>i_id := Some (next_id (map i_id (order_items d)))\<rparr>"
    define d1 where "d1 = d\<lparr>order_items := order_items d @ [it]\<rparr>"
    have step: "create_order_item m d (item_for x p) = Inr (d1, it)"
      using None by (simp add: create_order_item_def it_def d1_def Let_def)
    then have "create_items m d x (p # ps) = create_items m d1 x ps"
      by (simp add: item_for_def)
    with Cons.prems have "create_items m d1 x ps = (d', Inr u)" by simp
    then obtain its where its: "d' = d1\<lparr>order_items := order_items d1 @ its\<rparr>"
      "map (\<lambda>it. it\<lparr>i_id := None\<rparr>) its = map (item_for x) ps"
      using Cons.IH by blast
    have "d' = d\<lparr>order_items := order_items d @ (it # its)\<rparr>"
      using its(1) by (simp add: d1_def)
    moreover have "map (\<lambda>it. it\<lparr>i_id := None\<rparr>) (it # its) = map (item_for x) (p # ps)"
      using its(2) by (simp add: it_def item_for_def)
    ultimately show ?thesis by blast
  qed
qed

lemma create_items_ok:
  "\<forall>d' it. m d' (Create_order_item it) = None \<Longrightarrow> \<exists>d'. create_items m d x ps = (d', Inr ())"
proof (induction ps arbitrary: d)
  case Nil
  then show ?case by simp
next
  case (Cons p ps)
  then show ?case by (simp add: create_order_item_def Let_def)
qed

lemma create_order_atomic_Inr:
  "create_order_atomic m d c ps t = (d', Inr x) \<Longrightarrow>
   \<exists>its. x = \<lparr>o_id = Some (next_id (map o_id (orders d))), o_customer = c_id c,
              o_total_amount = t\<rparr>
     \<and> d' = d\<lparr>orders := orders d @ [x], order_items := order_items d @ its\<rparr>
     \<and> map (\<lambda>it. it\<lparr>i_id := None\<rparr>) its = map (item_for x) ps"
proof -
  assume a: "create_order_atomic m d c ps t = (d', Inr x)"
  let ?unsaved = "\<lparr>o_id = None, o_customer = c_id c, o_total_amount = t\<rparr>"
  let ?x = "\<lparr>o_id = Some (next_id (map o_id (orders d))), o_customer = c_id c,
             o_total_amount = t\<rparr>"
  let ?d1 = "d\<lparr>orders := orders d @ [?x]\<rparr>"
  show ?thesis
  proof (cases "m d (Save_order ?unsaved)")
    case (Some e)
    then have "create_order_atomic m d c ps t = (d, Inl e)"
      by (simp add: create_order_atomic_def save_order_def atomic_def)
    with a show ?thesis by simp
  next
    case None
    then have save: "save_order m d ?unsaved = Inr (?d1, ?x)"
      by (simp add: save_order_def Let_def)
    obtain d2 r where items: "create_items m ?d1 ?x ps = (d2, r)"
      by (cases "create_items m ?d1 ?x ps")
    show ?thesis
    proof (cases r)
      case (Inl e)
      then have "create_order_atomic m d c ps t = (d, Inl e)"
        using save items by (simp add: create_order_atomic_def atomic_def)
      with a show ?thesis by simp
    next
      case (Inr u)
      then have "create_order_atomic m d c ps t = (d2, Inr ?x)"
        using save items by (simp add: create_order_atomic_def atomic_def)
      with a have eq: "d' = d2" "x = ?x" by simp_all
      obtain its where its: "d2 = ?d1\<lparr>order_items := order_items ?d1 @ its\<rparr>"
        "map (\<lambda>it. it\<lparr>i_id := None\<rparr>) its = map (item_for ?x) ps"
        using create_items_Inr items Inr by blast
      have "d' = d\<lparr>orders := orders d @ [x], order_items := order_items d @ its\<rparr>"
        using eq its(1) by simp
      then show ?thesis using eq(2) its(2) by blast
    qed
  qed
qed

lemma create_order_atomic_Inl: "create_order_atomic m d c ps t = (d', Inl e) \<Longrightarrow> d' = d"
  by (auto simp: create_order_atomic_def atomic_def split: sum.splits prod.splits)

lemma create_order_try_Inl: "create_order_try m d inp = (d', Inl e) \<Longrightarrow> d' = d"
  by (auto simp: create_order_try_def split: sum.splits prod.splits if_splits
      dest: create_order_atomic_Inl)

text \<open>
  Every createOrder call that fails leaves the store as it was and answers no order,
  whatever the model layer raises and wherever it raises it.
\<close>

lemma create_order_failure:
  "\<not> oe_success (snd (create_order m d inp)) \<Longrightarrow>
     fst (create_order m d inp) = d \<and> oe_order (snd (create_order m d inp)) = None"
proof -
  assume f: "\<not> oe_success (snd (create_order m d inp))"
  obtain d' r where t: "create_order_try m d inp = (d', r)" by (cases "create_order_try m d inp")
  show ?thesis
  proof (cases r)
    case (Inl e)
    then have "d' = d" using t create_order_try_Inl by blast
    then show ?thesis using t Inl by (simp add: create_order_def)
  next
    case (Inr x)
    then show ?thesis using t f by (simp add: create_order_def)
  qed
qed

lemma lookup_customer_Inr:
  "objects_get_customer d v = Inr c \<Longrightarrow> lookup_customer d v = Inr c"
  by (simp add: lookup_customer_def)

text \<open>
  C1: for every createOrder call whose customer id resolves and whose product ids all
  resolve, the order that the call creates has as total amount the sum of the prices that
  the resolved products have at the call, and the call adds exactly one order item for each
  resolved product, in input order, with quantity 1 and the price of that product as unit
  price.
\<close>

theorem created_order_total_and_items:
  assumes "objects_get_customer d (customer_id inp) = Inr c"
    and "map (objects_get_product d) (product_ids inp) = map Inr ps"
    and "create_order m d inp = (d', env)"
    and "oe_order env = Some x"
  shows "\<exists>its.
     d' = d\<lparr>orders := orders d @ [x], order_items := order_items d @ its\<rparr>
     \<and> oe_success env
     \<and> o_total_amount x = sum_list (map p_price ps)
     \<and> o_customer x = c_id c
     \<and> length its = length ps
     \<and> map i_product its = map p_id ps
     \<and> map i_unit_price its = map p_price ps
     \<and> map i_quantity its = map (\<lambda>p. 1) ps
     \<and> map i_order its = map (\<lambda>p. o_id x) ps"
proof -
  have res: "resolve_products d (product_ids inp) [] 0 = Inr (ps, sum_list (map p_price ps))"
    using resolve_products_all [OF assms(2), of "[]" 0] by simp
  obtain d1 r where t: "create_order_try m d inp = (d1, r)"
    by (cases "create_order_try m d inp")
  have made: "r = Inr x \<and> d1 = d' \<and> oe_success env"
  proof (cases r)
    case (Inl e)
    then have "oe_order env = None" using t assms(3) by (auto simp: create_order_def split: if_splits)
    with assms(4) show ?thesis by simp
  next
    case (Inr y)
    then show ?thesis using t assms(3,4) by (auto simp: create_order_def)
  qed
  have "ps \<noteq> []"
  proof
    assume "ps = []"
    then have "\<exists>e. create_order_try m d inp = (d, Inl e)"
      using res lookup_customer_Inr [OF assms(1)] by (simp add: create_order_try_def)
    with t made show False by simp
  qed
  then have "create_order_atomic m d c ps (sum_list (map p_price ps)) = (d', Inr x)"
    using t made res lookup_customer_Inr [OF assms(1)] by (simp add: create_order_try_def)
  then obtain its where its:
    "x = \<lparr>o_id = Some (next_id (map o_id (orders d))), o_customer = c_id c,
          o_total_amount = sum_list (map p_price ps)\<rparr>"
    "d' = d\<lparr>orders := orders d @ [x], order_items := order_items d @ its\<rparr>"
    "map (\<lambda>it. it\<lparr>i_id := None\<rparr>) its = map (item_for x) ps"
    using create_order_atomic_Inr by blast
  have len: "length its = length ps"
    using arg_cong [OF its(3), of length] by simp
  have "map i_product (map (\<lambda>it. it\<lparr>i_id := None\<rparr>) its) = map i_product (map (item_for x) ps)"
    using its(3) by simp
  then have prod: "map i_product its = map p_id ps" by (simp add: item_for_def comp_def)
  have "map i_unit_price (map (\<lambda>it. it\<lparr>i_id := None\<rparr>) its)
      = map i_unit_price (map (item_for x) ps)"
    using its(3) by simp
  then have price: "map i_unit_price its = map p_price ps" by (simp add: item_for_def comp_def)
  have "map i_quantity (map (\<lambda>it. it\<lparr>i_id := None\<rparr>) its)
      = map i_quantity (map (item_for x) ps)"
    using its(3) by simp
  then have qty: "map i_quantity its = map (\<lambda>p. 1) ps" by (simp add: item_for_def comp_def)
  have "map i_order (map (\<lambda>it. it\<lparr>i_id := None\<rparr>) its) = map i_order (map (item_for x) ps)"
    using its(3) by simp
  then have ord: "map i_order its = map (\<lambda>p. o_id x) ps" by (simp add: item_for_def comp_def)
  have tot: "o_total_amount x = sum_list (map p_price ps)" "o_customer x = c_id c"
    using its(1) by simp_all
  show ?thesis using its(2) made tot len prod price qty ord by blast
qed

lemmas order_eval =
  create_order_def create_order_try_def create_order_atomic_def atomic_def lookup_customer_def
  objects_get_customer_def objects_get_product_def save_order_def create_order_item_def
  py_int_def strip_def is_space_def parse_digits_def is_digit_def digit_value_def
  accepting_def next_id_def Let_def sample_db_def

theorem created_order_total_and_items_witness:
  "objects_get_customer sample_db ''1''
     = Inr \<lparr>c_id = Some 1, c_name = ''Alice Johnson'', c_email = ''alice@example.com'',
            c_phone = Some ''+44555123456''\<rparr>
   \<and> map (objects_get_product sample_db) [''1'', ''2'']
       = map Inr [\<lparr>p_id = Some 1, p_name = ''Mouse'', p_price = 10, p_stock = 50\<rparr>,
                  \<lparr>p_id = Some 2, p_name = ''Keyboard'', p_price = 20, p_stock = 25\<rparr>]
   \<and> create_order accepting sample_db
         \<lparr>customer_id = ''1'', product_ids = [''1'', ''2''], order_date = None\<rparr>
     = (sample_db\<lparr>orders := [\<lparr>o_id = Some 1, o_customer = Some 1, o_total_amount = 30\<rparr>],
          order_items :=
            [\<lparr>i_id = Some 1, i_order = Some 1, i_product = Some 1, i_quantity = 1,
              i_unit_price = 10\<rparr>,
             \<lparr>i_id = Some 2, i_order = Some 1, i_product = Some 2, i_quantity = 1,
              i_unit_price = 20\<rparr>]\<rparr>,
        \<lparr>oe_order = Some \<lparr>o_id = Some 1, o_customer = Some 1, o_total_amount = 30\<rparr>,
         oe_message = ''Order created successfully'', oe_success = True\<rparr>)"
proof -
  let ?inp = "\<lparr>customer_id = ''1'', product_ids = [''1'', ''2''], order_date = None\<rparr>"
  let ?ps = "[\<lparr>p_id = Some 1, p_name = ''Mouse'', p_price = 10, p_stock = 50\<rparr>,
              \<lparr>p_id = Some 2, p_name = ''Keyboard'', p_price = 20, p_stock = 25\<rparr>]"
  let ?x = "\<lparr>o_id = Some 1, o_customer = Some 1, o_total_amount = 30\<rparr>"
  let ?d' = "sample_db\<lparr>orders := [?x],
          order_items :=
            [\<lparr>i_id = Some 1, i_order = Some 1, i_product = Some 1, i_quantity = 1,
              i_unit_price = 10\<rparr>,
             \<lparr>i_id = Some 2, i_order = Some 1, i_product = Some 2, i_quantity = 1,
              i_unit_price = 20\<rparr>]\<rparr>"
  let ?env = "\<lparr>oe_order = Some ?x, oe_message = ''Order created successfully'',
         oe_success = True\<rparr>"
  have h1: "objects_get_customer sample_db (customer_id ?inp) =
     Inr \<lparr>c_id = Some 1, c_name = ''Alice Johnson'', c_email = ''alice@example.com'',
           c_phone = Some ''+44555123456''\<rparr>"
    by (simp add: order_eval)
  have h2: "map (objects_get_product sample_db) (product_ids ?inp) = map Inr ?ps"
    by (simp add: order_eval)
  have h3: "create_order accepting sample_db ?inp = (?d', ?env)"
    by (simp add: order_eval)
  have h4: "oe_order ?env = Some ?x" by simp
  from created_order_total_and_items [OF h1 h2 h3 h4]
  have "o_total_amount ?x = sum_list (map p_price ?ps)" by blast
  then show ?thesis using h1 h2 h3 by simp
qed

text \<open>
  When the customer id resolves, the list of product ids is not empty and resolves
  entirely, and the store takes the writes, the call does create the order.
\<close>

lemma create_order_succeeds:
  assumes "objects_get_customer d (customer_id inp) = Inr c"
    and "product_ids inp \<noteq> []"
    and "map (objects_get_product d) (product_ids inp) = map Inr ps"
    and "\<forall>d' x. m d' (Save_order x) = None"
    and "\<forall>d' it. m d' (Create_order_item it) = None"
  shows "\<exists>d'. create_order m d inp =
       (d', \<lparr>oe_order = Some (new_order d c ps), oe_message = ''Order created successfully'',
             oe_success = True\<rparr>)"
proof -
  have ps: "ps \<noteq> []" using assms(2,3) by auto
  have res: "resolve_products d (product_ids inp) [] 0 = Inr (ps, sum_list (map p_price ps))"
    using resolve_products_all [OF assms(3), of "[]" 0] by simp
  let ?d1 = "d\<lparr>orders := orders d @ [new_order d c ps]\<rparr>"
  have save: "save_order m d \<lparr>o_id = None, o_customer = c_id c,
      o_total_amount = sum_list (map p_price ps)\<rparr> = Inr (?d1, new_order d c ps)"
    using assms(4) by (simp add: save_order_def new_order_def Let_def)
  obtain d2 where "create_items m ?d1 (new_order d c ps) ps = (d2, Inr ())"
    using create_items_ok [OF assms(5)] by blast
  then have "create_order_atomic m d c ps (sum_list (map p_price ps))
      = (d2, Inr (new_order d c ps))"
    using save by (simp add: create_order_atomic_def atomic_def)
  then show ?thesis
    using res ps lookup_customer_Inr [OF assms(1)]
    by (simp add: create_order_def create_order_try_def)
qed

text \<open>
  The customer is looked up first; then the product ids in input order, and the first one
  that is the key of no product is the one the message names, as it was sent.
\<close>

lemma create_order_no_customer:
  "objects_get_customer d (customer_id inp)
     = Inl (DoesNotExist ''Customer matching query does not exist.'') \<Longrightarrow>
     create_order m d inp =
       (d, \<lparr>oe_order = None, oe_message = ''['Customer does not exist']'', oe_success = False\<rparr>)"
  by (simp add: create_order_def create_order_try_def lookup_customer_def repr_eval)

lemma create_order_first_missing_product:
  "objects_get_customer d (customer_id inp) = Inr c \<Longrightarrow> product_ids inp = pre @ pid # post \<Longrightarrow>
   map (objects_get_product d) pre = map Inr qs \<Longrightarrow>
   objects_get_product d pid = Inl (DoesNotExist ''Product matching query does not exist.'') \<Longrightarrow>
     create_order m d inp =
       (d, \<lparr>oe_order = None,
            oe_message = ''['' @ py_repr (''Product with ID '' @ pid @ '' does not exist'') @ '']'',
            oe_success = False\<rparr>)"
  by (simp add: create_order_def create_order_try_def lookup_customer_Inr resolve_products_stops
      product_missing_def str_exn_raise)

lemma create_order_no_products:
  "objects_get_customer d (customer_id inp) = Inr c \<Longrightarrow> product_ids inp = [] \<Longrightarrow>
     create_order m d inp =
       (d, \<lparr>oe_order = None, oe_message = ''['At least one product is required']'',
            oe_success = False\<rparr>)"
  by (simp add: create_order_def create_order_try_def lookup_customer_Inr repr_eval)

lemma create_order_id_not_a_number:
  "py_int (customer_id inp) = None \<Longrightarrow>
     create_order m d inp =
       (d, \<lparr>oe_order = None,
            oe_message = ''Error creating order: Field 'id' expected a number but got ''
              @ py_repr (customer_id inp) @ ''.'',
            oe_success = False\<rparr>)"
  by (simp add: create_order_def create_order_try_def lookup_customer_def
      objects_get_customer_def field_id_error_def)

text \<open>
  An exception in the middle of the atomic block: the order row and the first item are
  undone, and the handler for other exceptions words the message.
\<close>

lemma create_order_rollback_example:
  "create_order failing_second_item sample_db
      \<lparr>customer_id = ''1'', product_ids = [''1'', ''2''], order_date = None\<rparr>
   = (sample_db, \<lparr>oe_order = None, oe_message = ''Error creating order: database is locked'',
                   oe_success = False\<rparr>)"
  by (simp add: order_eval failing_second_item_def)

text \<open>
  C8: in createOrder the check for an empty list of resolved products cannot fail when the
  list of product ids is not empty. Resolving a non-empty list either raises, for an id
  that is the key of no product or is no number, and the call ends with that exception
  before the check, or returns a non-empty list of products, with which the call goes on
  to the atomic block.
\<close>

theorem empty_products_branch_unreachable:
  "product_ids inp \<noteq> [] \<Longrightarrow>
     (case resolve_products d (product_ids inp) [] 0 of
        Inl e \<Rightarrow>
          (\<exists>pid \<in> set (product_ids inp).
              (objects_get_product d pid
                 = Inl (DoesNotExist ''Product matching query does not exist.'')
               \<and> e = product_missing pid)
              \<or> (py_int pid = None \<and> e = field_id_error pid))
          \<and> e \<noteq> raise_ValidationError ''At least one product is required''
          \<and> (\<forall>c. lookup_customer d (customer_id inp) = Inr c \<longrightarrow>
                 create_order_try m d inp = (d, Inl e))
      | Inr (ps, t) \<Rightarrow>
          ps \<noteq> []
          \<and> (\<forall>c. lookup_customer d (customer_id inp) = Inr c \<longrightarrow>
                 create_order_try m d inp = create_order_atomic m d c ps t))"
proof -
  assume ne: "product_ids inp \<noteq> []"
  from resolve_cases [of d "product_ids inp"] show ?thesis
  proof
    assume "\<exists>qs. map (objects_get_product d) (product_ids inp) = map Inr qs"
    then obtain qs where qs: "map (objects_get_product d) (product_ids inp) = map Inr qs"
      by blast
    then have "qs \<noteq> []" using ne by auto
    moreover have "resolve_products d (product_ids inp) [] 0 = Inr (qs, sum_list (map p_price qs))"
      using resolve_products_all [OF qs, of "[]" 0] by simp
    ultimately show ?thesis by (simp add: create_order_try_def)
  next
    assume "\<exists>pre pid post qs e. product_ids inp = pre @ pid # post \<and>
        map (objects_get_product d) pre = map Inr qs \<and> objects_get_product d pid = Inl e"
    then obtain pre pid post qs e where h: "product_ids inp = pre @ pid # post"
      "map (objects_get_product d) pre = map Inr qs" "objects_get_product d pid = Inl e"
      by blast
    let ?e = "if is_DoesNotExist e then product_missing pid else e"
    have r: "resolve_products d (product_ids inp) [] 0 = Inl ?e"
      using resolve_products_stops [OF h(2,3), of post "[]" 0] h(1) by simp
    have mem: "pid \<in> set (product_ids inp)" using h(1) by simp
    have kind: "(objects_get_product d pid
                 = Inl (DoesNotExist ''Product matching query does not exist.'')
               \<and> ?e = product_missing pid)
              \<or> (py_int pid = None \<and> ?e = field_id_error pid)"
      using objects_get_product_Inl [OF h(3)] h(3) by auto
    have neq: "?e \<noteq> raise_ValidationError ''At least one product is required''"
      using kind product_missing_not_empty_list [of pid]
      by (auto simp: field_id_error_def raise_ValidationError_def)
    have "\<exists>p \<in> set (product_ids inp).
              (objects_get_product d p
                 = Inl (DoesNotExist ''Product matching query does not exist.'')
               \<and> ?e = product_missing p)
              \<or> (py_int p = None \<and> ?e = field_id_error p)"
      using mem kind by blast
    then show ?thesis using r neq by (simp add: create_order_try_def)
  qed
qed

theorem empty_products_branch_unreachable_witness:
  "product_ids \<lparr>customer_id = ''1'', product_ids = [''1'', ''2''], order_date = None\<rparr> \<noteq> []
   \<and> product_ids \<lparr>customer_id = ''1'', product_ids = [''1'', ''3''], order_date = None\<rparr> \<noteq> []
   \<and> (\<exists>ps t. resolve_products sample_db [''1'', ''2''] [] 0 = Inr (ps, t) \<and> ps \<noteq> [])
   \<and> resolve_products sample_db [''1'', ''3''] [] 0 = Inl (product_missing ''3'')
   \<and> create_order_try accepting sample_db
        \<lparr>customer_id = ''1'', product_ids = [''1'', ''3''], order_date = None\<rparr>
       = (sample_db, Inl (product_missing ''3''))"
  using empty_products_branch_unreachable
          [of "\<lparr>customer_id = ''1'', product_ids = [''1'', ''2''], order_date = None\<rparr>"
              sample_db accepting]
        empty_products_branch_unreachable
          [of "\<lparr>customer_id = ''1'', product_ids = [''1'', ''3''], order_date = None\<rparr>"
              sample_db accepting]
  by (simp add: order_eval)

text \<open>
  C2: a createOrder call whose customer id resolves to no row answers the failure envelope
  and leaves the store unchanged, but its message is the printed form of the validation
  error, \<^verbatim>\<open>['Customer does not exist']\<close>, and not the text \<^verbatim>\<open>Customer does not exist\<close>
  that the specification gives.
\<close>

theorem create_order_missing_customer_message:
  "create_order accepting sample_db
       \<lparr>customer_id = ''9'', product_ids = [''1''], order_date = None\<rparr>
     = (sample_db, \<lparr>oe_order = None, oe_message = ''['Customer does not exist']'',
                     oe_success = False\<rparr>)
   \<and> oe_message (snd (create_order accepting sample_db
         \<lparr>customer_id = ''9'', product_ids = [''1''], order_date = None\<rparr>))
       \<noteq> ''Customer does not exist''"
proof -
  have "objects_get_customer sample_db ''9''
      = Inl (DoesNotExist ''Customer matching query does not exist.'')"
    by (simp add: order_eval)
  then have "create_order accepting sample_db
       \<lparr>customer_id = ''9'', product_ids = [''1''], order_date = None\<rparr>
     = (sample_db, \<lparr>oe_order = None, oe_message = ''['Customer does not exist']'',
                     oe_success = False\<rparr>)"
    by (simp add: create_order_no_customer)
  then show ?thesis by simp
qed

end
